theory Spec2Isabelle
  imports Complex_Main "HOL-Library.Monad_Syntax"
begin

section \<open>Number model and vector types\<close>

text \<open>
  The program is the WGSL shader of \<^verbatim>\<open>src/constants.ts\<close>. A value of its scalar type
  \<^verbatim>\<open>f32\<close> is modelled by a \<^typ>\<open>real\<close>, and the arithmetic of the geometry, the lighting
  and the glow is the exact one, with no rounding. Decimal literals stand for the
  rationals they denote. Division in these stages is HOL's total division; where a claim
  depends on a divisor, the divisor is a definition of its own. The tone map, which the
  claims consider at every finite input, and \<^verbatim>\<open>pow\<close> are modelled on the type \<open>f32\<close> below,
  with the infinities and NaN of IEEE 754 binary32. The vector types are datatypes with
  the components of the source (\<^verbatim>\<open>.x .y .z .w\<close>).
\<close>

datatype vec2f = Vec2f (v2x: real) (v2y: real)

datatype vec3f = Vec3f (vx: real) (vy: real) (vz: real)

datatype vec4f = Vec4f (v4x: real) (v4y: real) (v4z: real) (v4w: real)

text \<open>The arithmetic operators of WGSL act on vectors component by component.\<close>

instantiation vec3f :: "{zero, plus, minus, uminus, times, inverse}"
begin

definition zero_vec3f :: vec3f where
  "zero_vec3f = Vec3f 0 0 0"

definition plus_vec3f :: "vec3f \<Rightarrow> vec3f \<Rightarrow> vec3f" where
  "plus_vec3f a b = Vec3f (vx a + vx b) (vy a + vy b) (vz a + vz b)"

definition minus_vec3f :: "vec3f \<Rightarrow> vec3f \<Rightarrow> vec3f" where
  "minus_vec3f a b = Vec3f (vx a - vx b) (vy a - vy b) (vz a - vz b)"

definition uminus_vec3f :: "vec3f \<Rightarrow> vec3f" where
  "uminus_vec3f a = Vec3f (- vx a) (- vy a) (- vz a)"

definition times_vec3f :: "vec3f \<Rightarrow> vec3f \<Rightarrow> vec3f" where
  "times_vec3f a b = Vec3f (vx a * vx b) (vy a * vy b) (vz a * vz b)"

definition divide_vec3f :: "vec3f \<Rightarrow> vec3f \<Rightarrow> vec3f" where
  "divide_vec3f a b = Vec3f (vx a / vx b) (vy a / vy b) (vz a / vz b)"

definition inverse_vec3f :: "vec3f \<Rightarrow> vec3f" where
  "inverse_vec3f a = Vec3f (inverse (vx a)) (inverse (vy a)) (inverse (vz a))"

instance ..

end

instantiation vec2f :: "{zero, plus, minus, uminus, times, inverse}"
begin

definition zero_vec2f :: vec2f where
  "zero_vec2f = Vec2f 0 0"

definition plus_vec2f :: "vec2f \<Rightarrow> vec2f \<Rightarrow> vec2f" where
  "plus_vec2f a b = Vec2f (v2x a + v2x b) (v2y a + v2y b)"

definition minus_vec2f :: "vec2f \<Rightarrow> vec2f \<Rightarrow> vec2f" where
  "minus_vec2f a b = Vec2f (v2x a - v2x b) (v2y a - v2y b)"

definition uminus_vec2f :: "vec2f \<Rightarrow> vec2f" where
  "uminus_vec2f a = Vec2f (- v2x a) (- v2y a)"

definition times_vec2f :: "vec2f \<Rightarrow> vec2f \<Rightarrow> vec2f" where
  "times_vec2f a b = Vec2f (v2x a * v2x b) (v2y a * v2y b)"

definition divide_vec2f :: "vec2f \<Rightarrow> vec2f \<Rightarrow> vec2f" where
  "divide_vec2f a b = Vec2f (v2x a / v2x b) (v2y a / v2y b)"

definition inverse_vec2f :: "vec2f \<Rightarrow> vec2f" where
  "inverse_vec2f a = Vec2f (inverse (v2x a)) (inverse (v2y a))"

instance ..

end

text \<open>
  A scalar operand of a vector operator is used for every component: \<open>splat s\<close> is the
  vector \<^verbatim>\<open>vec3f(s)\<close>, \<open>splat2 s\<close> is \<^verbatim>\<open>vec2f(s)\<close>.
\<close>

definition splat :: "real \<Rightarrow> vec3f" where
  "splat s = Vec3f s s s"

definition splat2 :: "real \<Rightarrow> vec2f" where
  "splat2 s = Vec2f s s"

definition xyz :: "vec4f \<Rightarrow> vec3f" where
  "xyz v = Vec3f (v4x v) (v4y v) (v4z v)"

section \<open>The uniform block\<close>

record Uniforms =
  resolution :: vec2f
  time :: real
  dt :: real
  cameraPos :: vec4f
  mouse :: vec4f
  animSpeed :: real
  detail :: real
  vignette :: real
  metallic :: real
  baseColor :: vec4f
  grainStrength :: real
  lightAz :: real
  lightEl :: real
  isRendering :: real
  aberrationStrength :: real
  electricSpeed :: real
  electricIntensity :: real
  electricColor :: vec4f
  audio :: vec4f

text \<open>
  The default parameters are the initial values of the host's parameter list
  (\<^verbatim>\<open>useState<ShaderParam[]>\<close> in the renderer component) and of its camera state
  (\<^verbatim>\<open>theta 0.5, phi 0.3, radius 4.5\<close>), at time 0, with no audio source and the mouse at
  rest. The resolution is the 800 by 600 of the spec's scenario; no claim depends on it.
  The shader reads only \<^verbatim>\<open>.xyz\<close> of the camera position and \<^verbatim>\<open>.rgb\<close> of the two
  colours; their fourth component is set to 0 here.
\<close>

definition defaultParams :: Uniforms where
  "defaultParams = \<lparr>
     resolution = Vec2f 800 600,
     time = 0,
     dt = 0,
     cameraPos = Vec4f (4.5 * cos 0.3 * sin 0.5) (4.5 * sin 0.3) (4.5 * cos 0.3 * cos 0.5) 0,
     mouse = Vec4f 0 0 0 0,
     animSpeed = 0.2,
     detail = 0.35,
     vignette = 0.2,
     metallic = 1.0,
     baseColor = Vec4f 0.8 0.8 0.85 0,
     grainStrength = 0,
     lightAz = 0.1,
     lightEl = 0.6,
     isRendering = 0,
     aberrationStrength = 0,
     electricSpeed = 0.8,
     electricIntensity = 12.0,
     electricColor = Vec4f 0.1 0.6 1.0 0,
     audio = Vec4f 0 0 0 0 \<rparr>"

section \<open>Built-in functions of WGSL\<close>

definition PI :: real where
  "PI = 3.14159265359"

definition EPSILON :: real where
  "EPSILON = 0.0001"

definition fract :: "real \<Rightarrow> real" where
  "fract a = a - of_int \<lfloor>a\<rfloor>"

definition clamp :: "real \<Rightarrow> real \<Rightarrow> real \<Rightarrow> real" where
  "clamp e lo hi = min (max e lo) hi"

definition mix :: "real \<Rightarrow> real \<Rightarrow> real \<Rightarrow> real" where
  "mix a b t = a * (1 - t) + b * t"

definition smoothstep :: "real \<Rightarrow> real \<Rightarrow> real \<Rightarrow> real" where
  "smoothstep lo hi a = (let t = clamp ((a - lo) / (hi - lo)) 0 1 in t * t * (3 - 2 * t))"

subsection \<open>Binary32 values with overflow\<close>

text \<open>
  A binary32 value is a finite real, an infinity or NaN. An operation on finite values
  has the exact result, unless the result reaches the overflow threshold of rounding to
  nearest, \<open>2^128 - 2^103\<close>, in magnitude: then it is an infinity. Rounding of results in
  range, subnormal numbers and the sign of zero are not modelled (a zero divisor counts
  as \<open>+0\<close>). The operations on infinities and NaN are those of IEEE 754.
\<close>

datatype f32 = Fin real | PInf | NInf | NaN

definition f32_limit :: real where
  "f32_limit = 2 ^ 128 - 2 ^ 103"

definition overflow :: "real \<Rightarrow> f32" where
  "overflow r = (if f32_limit \<le> r then PInf else if r \<le> - f32_limit then NInf else Fin r)"

fun mul_f32 :: "f32 \<Rightarrow> f32 \<Rightarrow> f32" where
  "mul_f32 (Fin a) (Fin b) = overflow (a * b)"
| "mul_f32 (Fin a) PInf = (if a = 0 then NaN else if 0 < a then PInf else NInf)"
| "mul_f32 (Fin a) NInf = (if a = 0 then NaN else if 0 < a then NInf else PInf)"
| "mul_f32 PInf (Fin b) = (if b = 0 then NaN else if 0 < b then PInf else NInf)"
| "mul_f32 NInf (Fin b) = (if b = 0 then NaN else if 0 < b then NInf else PInf)"
| "mul_f32 PInf PInf = PInf"
| "mul_f32 NInf NInf = PInf"
| "mul_f32 PInf NInf = NInf"
| "mul_f32 NInf PInf = NInf"
| "mul_f32 _ _ = NaN"

fun add_f32 :: "f32 \<Rightarrow> f32 \<Rightarrow> f32" where
  "add_f32 (Fin a) (Fin b) = overflow (a + b)"
| "add_f32 (Fin a) PInf = PInf"
| "add_f32 (Fin a) NInf = NInf"
| "add_f32 PInf (Fin b) = PInf"
| "add_f32 NInf (Fin b) = NInf"
| "add_f32 PInf PInf = PInf"
| "add_f32 NInf NInf = NInf"
| "add_f32 _ _ = NaN"

fun div_f32 :: "f32 \<Rightarrow> f32 \<Rightarrow> f32" where
  "div_f32 (Fin a) (Fin b) =
     (if b = 0 then (if a = 0 then NaN else if 0 < a then PInf else NInf)
      else overflow (a / b))"
| "div_f32 (Fin a) PInf = Fin 0"
| "div_f32 (Fin a) NInf = Fin 0"
| "div_f32 PInf (Fin b) = (if 0 \<le> b then PInf else NInf)"
| "div_f32 NInf (Fin b) = (if 0 \<le> b then NInf else PInf)"
| "div_f32 _ _ = NaN"

text \<open>
  \<^verbatim>\<open>max\<close> and \<^verbatim>\<open>min\<close> select by comparison, and a comparison with NaN is false: a NaN
  operand comes out as NaN, so \<^verbatim>\<open>clamp\<close>, which is \<^verbatim>\<open>min(max(e, low), high)\<close>, maps NaN to
  NaN.
\<close>

fun max_f32 :: "f32 \<Rightarrow> f32 \<Rightarrow> f32" where
  "max_f32 (Fin a) (Fin b) = Fin (max a b)"
| "max_f32 NaN _ = NaN"
| "max_f32 _ NaN = NaN"
| "max_f32 PInf _ = PInf"
| "max_f32 _ PInf = PInf"
| "max_f32 NInf b = b"
| "max_f32 a NInf = a"

fun min_f32 :: "f32 \<Rightarrow> f32 \<Rightarrow> f32" where
  "min_f32 (Fin a) (Fin b) = Fin (min a b)"
| "min_f32 NaN _ = NaN"
| "min_f32 _ NaN = NaN"
| "min_f32 NInf _ = NInf"
| "min_f32 _ NInf = NInf"
| "min_f32 PInf b = b"
| "min_f32 a PInf = a"

definition clamp_f32 :: "f32 \<Rightarrow> f32 \<Rightarrow> f32 \<Rightarrow> f32" where
  "clamp_f32 e lo hi = min_f32 (max_f32 e lo) hi"


text \<open>
  \<^verbatim>\<open>pow\<close> of a finite base and a finite exponent, with the special cases of IEEE 754:
  any base to the power 0 is 1, and 1 to any power is 1; 0 to a positive power is 0, to a
  negative power an infinity; a negative base has a value for an integer exponent only.
  For an infinite base or NaN the cases are those of \<open>pow_f32\<close>.
\<close>

definition pow :: "real \<Rightarrow> real \<Rightarrow> f32" where
  "pow a b =
     (if b = 0 \<or> a = 1 then Fin 1
      else if 0 < a then overflow (a powr b)
      else if a = 0 then (if 0 < b then Fin 0 else PInf)
      else if b = of_int \<lfloor>b\<rfloor>
        then overflow ((if even \<lfloor>b\<rfloor> then 1 else - 1) * (\<bar>a\<bar> powr b))
      else NaN)"

fun pow_f32 :: "f32 \<Rightarrow> real \<Rightarrow> f32" where
  "pow_f32 (Fin a) b = pow a b"
| "pow_f32 PInf b = (if b = 0 then Fin 1 else if 0 < b then PInf else Fin 0)"
| "pow_f32 NInf b =
     (if b = 0 then Fin 1
      else if 0 < b then (if b = of_int \<lfloor>b\<rfloor> \<and> odd \<lfloor>b\<rfloor> then NInf else PInf)
      else Fin 0)"
| "pow_f32 NaN b = (if b = 0 then Fin 1 else NaN)"

text \<open>
  A binary32 value enters the exact arithmetic of the other stages when it is finite; an
  infinity or NaN there is the failure \<open>None\<close>.
\<close>

fun finite_of :: "f32 \<Rightarrow> real option" where
  "finite_of (Fin a) = Some a"
| "finite_of _ = None"

subsection \<open>Vector functions\<close>

definition dot :: "vec3f \<Rightarrow> vec3f \<Rightarrow> real" where
  "dot a b = vx a * vx b + vy a * vy b + vz a * vz b"

definition dot2 :: "vec2f \<Rightarrow> vec2f \<Rightarrow> real" where
  "dot2 a b = v2x a * v2x b + v2y a * v2y b"

definition cross :: "vec3f \<Rightarrow> vec3f \<Rightarrow> vec3f" where
  "cross a b = Vec3f (vy a * vz b - vz a * vy b) (vz a * vx b - vx a * vz b)
                     (vx a * vy b - vy a * vx b)"

definition length_vec3 :: "vec3f \<Rightarrow> real" where
  "length_vec3 a = sqrt (dot a a)"

definition length_vec2 :: "vec2f \<Rightarrow> real" where
  "length_vec2 a = sqrt (dot2 a a)"

definition normalize_vec3 :: "vec3f \<Rightarrow> vec3f" where
  "normalize_vec3 a = a / splat (length_vec3 a)"

definition reflect :: "vec3f \<Rightarrow> vec3f \<Rightarrow> vec3f" where
  "reflect e1 e2 = e1 - splat (2 * dot e2 e1) * e2"

definition abs_vec3 :: "vec3f \<Rightarrow> vec3f" where
  "abs_vec3 a = Vec3f \<bar>vx a\<bar> \<bar>vy a\<bar> \<bar>vz a\<bar>"

definition max_vec3 :: "vec3f \<Rightarrow> vec3f \<Rightarrow> vec3f" where
  "max_vec3 a b = Vec3f (max (vx a) (vx b)) (max (vy a) (vy b)) (max (vz a) (vz b))"

definition floor_vec3 :: "vec3f \<Rightarrow> vec3f" where
  "floor_vec3 a = Vec3f (of_int \<lfloor>vx a\<rfloor>) (of_int \<lfloor>vy a\<rfloor>) (of_int \<lfloor>vz a\<rfloor>)"

definition fract_vec3 :: "vec3f \<Rightarrow> vec3f" where
  "fract_vec3 a = Vec3f (fract (vx a)) (fract (vy a)) (fract (vz a))"

definition mix_vec3 :: "vec3f \<Rightarrow> vec3f \<Rightarrow> real \<Rightarrow> vec3f" where
  "mix_vec3 a b t = a * splat (1 - t) + b * splat t"

text \<open>\<^verbatim>\<open>mix\<close> with a vector as third argument interpolates each component by its own weight.\<close>

definition mix_vec3v :: "vec3f \<Rightarrow> vec3f \<Rightarrow> vec3f \<Rightarrow> vec3f" where
  "mix_vec3v a b t = a * (splat 1 - t) + b * t"

section \<open>Utilities\<close>

text \<open>
  \<^verbatim>\<open>mat3x3f\<close> takes its nine scalars column by column, and a matrix times a vector is the
  sum of the columns weighted by the vector's components.
\<close>

definition rotate_vec3 :: "vec3f \<Rightarrow> real \<Rightarrow> vec3f \<Rightarrow> vec3f" where
  "rotate_vec3 p angle axis =
     (let a = normalize_vec3 axis;
          s = sin angle;
          c = cos angle;
          r = 1 - c;
          c0 = Vec3f (vx a * vx a * r + c) (vy a * vx a * r - vz a * s) (vz a * vx a * r + vy a * s);
          c1 = Vec3f (vx a * vy a * r + vz a * s) (vy a * vy a * r + c) (vz a * vy a * r - vx a * s);
          c2 = Vec3f (vx a * vz a * r - vy a * s) (vy a * vz a * r + vx a * s) (vz a * vz a * r + c)
      in c0 * splat (vx p) + c1 * splat (vy p) + c2 * splat (vz p))"

definition hash :: "vec3f \<Rightarrow> real" where
  "hash p =
     (let p3 = fract_vec3 (p * splat 0.1031);
          d = dot p3 (Vec3f (vy p3 + 19.19) (vz p3 + 19.19) (vx p3 + 19.19))
      in fract ((vx p3 + vy p3) * vz p3 + d))"

definition noise :: "vec3f \<Rightarrow> real" where
  "noise p =
     (let i = floor_vec3 p;
          f = fract_vec3 p;
          u = f * f * (splat 3 - splat 2 * f)
      in mix
           (mix (mix (hash (i + Vec3f 0 0 0)) (hash (i + Vec3f 1 0 0)) (vx u))
                (mix (hash (i + Vec3f 0 1 0)) (hash (i + Vec3f 1 1 0)) (vx u)) (vy u))
           (mix (mix (hash (i + Vec3f 0 0 1)) (hash (i + Vec3f 1 0 1)) (vx u))
                (mix (hash (i + Vec3f 0 1 1)) (hash (i + Vec3f 1 1 1)) (vx u)) (vy u))
           (vz u))"

text \<open>
  A \<^verbatim>\<open>for\<close> loop with a constant bound is a recursive function on the number of
  iterations that remain; the loop variables are its other arguments.
\<close>

fun fbm_loop :: "nat \<Rightarrow> real \<Rightarrow> real \<Rightarrow> vec3f \<Rightarrow> real" where
  "fbm_loop 0 val amp pp = val"
| "fbm_loop (Suc n) val amp pp =
     fbm_loop n (val + amp * noise pp) (amp * 0.5) (pp * splat 2.02)"

definition fbm :: "vec3f \<Rightarrow> real" where
  "fbm p = fbm_loop 4 0 0.5 p"

fun sparkNoise_loop :: "real \<Rightarrow> nat \<Rightarrow> nat \<Rightarrow> real \<Rightarrow> real \<Rightarrow> vec3f \<Rightarrow> real" where
  "sparkNoise_loop t 0 i val amp pp = val"
| "sparkNoise_loop t (Suc n) i val amp pp =
     (let drift = Vec3f (sin (t * 0.5 + real i)) (t * (1 + real i * 0.5))
                        (cos (t * 0.3 + real i * 2));
          n0 = noise (pp + drift)
      in sparkNoise_loop t n (Suc i) (val + amp * \<bar>n0 - 0.5\<bar>) (amp * 0.5)
           (pp * splat 2.1 + Vec3f 4.03 1.2 9.1))"

definition sparkNoise :: "vec3f \<Rightarrow> real \<Rightarrow> real" where
  "sparkNoise p t = 1 - sparkNoise_loop t 3 0 0 1 p * 1.5"

section \<open>Fractal geometry\<close>

definition sdBox :: "vec3f \<Rightarrow> vec3f \<Rightarrow> real" where
  "sdBox p b =
     (let q = abs_vec3 p - b
      in length_vec3 (max_vec3 q (splat 0)) + min (max (vx q) (max (vy q) (vz q))) 0)"

text \<open>
  One iteration of the fold of \<^verbatim>\<open>sdFractal\<close>: the state is \<^verbatim>\<open>(z, scale, trap)\<close>. The
  three conditional swaps are done in the order of the source, each on the result of the
  one before.
\<close>

definition sdFractal_body :: "Uniforms \<Rightarrow> real \<Rightarrow> vec3f \<times> real \<times> real \<Rightarrow> vec3f \<times> real \<times> real" where
  "sdFractal_body u warp s =
     (case s of (z, scale, trap) \<Rightarrow>
        let z1 = abs_vec3 z;
            z2 = (if vx z1 < vy z1 then Vec3f (vy z1) (vx z1) (vz z1) else z1);
            z3 = (if vx z2 < vz z2 then Vec3f (vz z2) (vy z2) (vx z2) else z2);
            z4 = (if vy z3 < vz z3 then Vec3f (vx z3) (vz z3) (vy z3) else z3);
            z5 = z4 * splat 2 - splat (1.2 * (detail u * 0.5 + 0.5));
            z6 = Vec3f (vx z5) (vy z5) (vz z5 + sin (vx z5 * 2 + time u) * warp * 0.05)
        in (z6, scale * 2, min trap (length_vec3 z6)))"

fun sdFractal_loop :: "Uniforms \<Rightarrow> real \<Rightarrow> nat \<Rightarrow> vec3f \<times> real \<times> real \<Rightarrow> vec3f \<times> real \<times> real" where
  "sdFractal_loop u warp 0 s = s"
| "sdFractal_loop u warp (Suc n) s = sdFractal_loop u warp n (sdFractal_body u warp s)"

definition sdFractal :: "Uniforms \<Rightarrow> vec3f \<Rightarrow> real" where
  "sdFractal u p =
     (let warp = v4y (audio u) * 0.2;
          z0 = rotate_vec3 p (time u * animSpeed u * 0.05) (Vec3f 0 1 0);
          z1 = rotate_vec3 z0 (time u * animSpeed u * 0.02) (Vec3f 1 0 1)
      in case sdFractal_loop u warp 4 (z1, 1, 1000) of
           (z, scale, trap) \<Rightarrow>
             let boxDist = sdBox z (Vec3f 1.2 1.2 4.0) / scale;
                 sphereDist = (length_vec3 z - 2.5) / scale
             in max boxDist sphereDist)"

text \<open>
  \<^verbatim>\<open>map\<close> returns the distance in \<^verbatim>\<open>.x\<close> and the material in \<^verbatim>\<open>.y\<close>: 1.0 is the fractal,
  2.0 the floor.
\<close>

definition map_scene :: "Uniforms \<Rightarrow> vec3f \<Rightarrow> vec2f" where
  "map_scene u p =
     (let finalObj = sdFractal u p - 0.01;
          floorHeight = - 2.2;
          floorDist = vy p - floorHeight
      in if finalObj < floorDist then Vec2f finalObj 1.0 else Vec2f floorDist 2.0)"

section \<open>Surface probes\<close>

definition calcNormal :: "Uniforms \<Rightarrow> vec3f \<Rightarrow> vec3f" where
  "calcNormal u p =
     (let e = Vec2f EPSILON 0;
          xyy = Vec3f (v2x e) (v2y e) (v2y e);
          yxy = Vec3f (v2y e) (v2x e) (v2y e);
          yyx = Vec3f (v2y e) (v2y e) (v2x e)
      in normalize_vec3 (Vec3f
           (v2x (map_scene u (p + xyy)) - v2x (map_scene u (p - xyy)))
           (v2x (map_scene u (p + yxy)) - v2x (map_scene u (p - yxy)))
           (v2x (map_scene u (p + yyx)) - v2x (map_scene u (p - yyx)))))"

text \<open>The loop of \<^verbatim>\<open>getAO\<close>: \<open>k\<close> iterations remain, \<open>i\<close> is the loop index.\<close>

fun getAO_loop :: "Uniforms \<Rightarrow> vec3f \<Rightarrow> vec3f \<Rightarrow> nat \<Rightarrow> nat \<Rightarrow> real \<Rightarrow> real \<Rightarrow> real" where
  "getAO_loop u p n 0 i occ sca = occ"
| "getAO_loop u p n (Suc k) i occ sca =
     (let h = 0.01 + 0.12 * real i / 4;
          d = v2x (map_scene u (p + splat h * n))
      in getAO_loop u p n k (Suc i) (occ + (h - d) * sca) (sca * 0.95))"

definition getAO :: "Uniforms \<Rightarrow> vec3f \<Rightarrow> vec3f \<Rightarrow> real" where
  "getAO u p n = clamp (1 - 3 * getAO_loop u p n 5 0 0 1) 0 1 * (0.5 + 0.5 * vy n)"

text \<open>
  The loop of \<^verbatim>\<open>getShadow\<close> leaves by \<^verbatim>\<open>break\<close> after the update of \<^verbatim>\<open>res\<close> and \<^verbatim>\<open>t\<close>,
  or after 32 iterations.
\<close>

fun getShadow_loop :: "Uniforms \<Rightarrow> vec3f \<Rightarrow> vec3f \<Rightarrow> real \<Rightarrow> real \<Rightarrow> nat \<Rightarrow> real \<Rightarrow> real \<Rightarrow> real" where
  "getShadow_loop u ro rd tmax k 0 res t = res"
| "getShadow_loop u ro rd tmax k (Suc n) res t =
     (let h = v2x (map_scene u (ro + rd * splat t));
          res1 = min res (k * h / t);
          t1 = t + clamp h 0.002 0.2
      in if res1 < 0.001 \<or> t1 > tmax then res1
         else getShadow_loop u ro rd tmax k n res1 t1)"

definition getShadow :: "Uniforms \<Rightarrow> vec3f \<Rightarrow> vec3f \<Rightarrow> real \<Rightarrow> real \<Rightarrow> real \<Rightarrow> real" where
  "getShadow u ro rd tmin tmax k = clamp (getShadow_loop u ro rd tmax k 32 1 tmin) 0 1"

section \<open>Lighting\<close>

text \<open>
  Every division of the lighting equations has its divisor as a definition of its own,
  so that the divisors can be talked about.
\<close>

definition distributionGGX_denom :: "vec3f \<Rightarrow> vec3f \<Rightarrow> real \<Rightarrow> real" where
  "distributionGGX_denom N H roughness =
     (let a = roughness * roughness;
          a2 = a * a;
          NdotH = max (dot N H) 0;
          NdotH2 = NdotH * NdotH;
          denom = NdotH2 * (a2 - 1) + 1;
          denom1 = PI * denom * denom
      in max denom1 0.00001)"

definition distributionGGX :: "vec3f \<Rightarrow> vec3f \<Rightarrow> real \<Rightarrow> real" where
  "distributionGGX N H roughness =
     (let a = roughness * roughness;
          a2 = a * a;
          num = a2
      in num / distributionGGX_denom N H roughness)"

definition geometrySchlickGGX_denom :: "real \<Rightarrow> real \<Rightarrow> real" where
  "geometrySchlickGGX_denom NdotV roughness =
     (let r = roughness + 1;
          k = (r * r) / 8;
          denom = NdotV * (1 - k) + k
      in max denom 0.00001)"

definition geometrySchlickGGX :: "real \<Rightarrow> real \<Rightarrow> real" where
  "geometrySchlickGGX NdotV roughness =
     (let num = NdotV in num / geometrySchlickGGX_denom NdotV roughness)"

definition geometrySmith :: "vec3f \<Rightarrow> vec3f \<Rightarrow> vec3f \<Rightarrow> real \<Rightarrow> real" where
  "geometrySmith N V L roughness =
     (let NdotV = max (dot N V) 0;
          NdotL = max (dot N L) 0;
          ggx2 = geometrySchlickGGX NdotV roughness;
          ggx1 = geometrySchlickGGX NdotL roughness
      in ggx1 * ggx2)"

definition fresnelSchlick :: "real \<Rightarrow> vec3f \<Rightarrow> vec3f option" where
  "fresnelSchlick cosTheta F0 =
     do { pw \<leftarrow> finite_of (pow (clamp (1 - cosTheta) 0 1) 5);
          Some (F0 + (splat 1 - F0) * splat pw) }"

definition getSky :: "vec3f \<Rightarrow> vec3f option" where
  "getSky rd =
     (let col = mix_vec3 (Vec3f 0.01 0.015 0.02) (Vec3f 0.05 0.05 0.06) (vy rd * 0.5 + 0.5);
          kPos = normalize_vec3 (Vec3f (- 0.5) 0.8 0.5);
          kSpec = max (dot rd kPos) 0;
          col1 = col + Vec3f 2.0 2.1 2.3 * splat (smoothstep 0.9 0.99 kSpec) * splat 4;
          rPos = normalize_vec3 (Vec3f 0 0.5 (- 1));
          rSpec = max (dot rd rPos) 0
      in do { pw \<leftarrow> finite_of (pow rSpec 100);
              Some (col1 + splat 3 * splat pw * splat 2) })"

definition lights :: "vec4f list" where
  "lights = [Vec4f (- 2) 5 3 10, Vec4f 5 2 (- 3) 5, Vec4f 0 4 (- 5) 8]"

definition lCols :: "vec3f list" where
  "lCols = [Vec3f 1 0.95 0.9, Vec3f 0.8 0.85 1, Vec3f 1 1 1]"

definition attenuation_denom :: "vec3f \<Rightarrow> vec3f \<Rightarrow> real" where
  "attenuation_denom lPos p =
     (let Lvector = lPos - p; dist = length_vec3 Lvector in dist * dist)"

definition specular_denom :: "vec3f \<Rightarrow> vec3f \<Rightarrow> vec3f \<Rightarrow> real" where
  "specular_denom n v L = 4 * max (dot n v) 0 * max (dot n L) 0 + 0.0001"

text \<open>
  The body of the light loop of \<^verbatim>\<open>renderPBR\<close> for light \<open>i\<close>: the value added to
  \<^verbatim>\<open>Lo\<close>.
\<close>

definition renderPBR_light ::
  "Uniforms \<Rightarrow> vec3f \<Rightarrow> vec3f \<Rightarrow> vec3f \<Rightarrow> vec3f \<Rightarrow> real \<Rightarrow> real \<Rightarrow> vec3f \<Rightarrow> nat \<Rightarrow> vec3f option" where
  "renderPBR_light u p n v baseCol metal roughness F0 i =
     (let lPos = xyz (lights ! i);
          lPower = v4w (lights ! i);
          lCol = lCols ! i;
          Lvector = lPos - p;
          dist = length_vec3 Lvector;
          L = normalize_vec3 Lvector;
          H = normalize_vec3 (v + L);
          attenuation = 1 / attenuation_denom lPos p;
          radiance = lCol * splat lPower * splat attenuation;
          shadow = (if i = 0 then getShadow u (p + n * splat 0.01) L 0.05 dist 16 else 1);
          NDF = distributionGGX n H roughness;
          G = geometrySmith n v L roughness
      in do { F \<leftarrow> fresnelSchlick (max (dot H v) 0) F0;
              let num = splat NDF * splat G * F;
                  den = specular_denom n v L;
                  specular = num / splat den;
                  kS = F;
                  kD = (splat 1 - kS) * splat (1 - metal);
                  NdotL = max (dot n L) 0
              in Some ((kD * baseCol / splat PI + specular) * radiance * splat NdotL * splat shadow) })"

fun renderPBR_loop ::
  "Uniforms \<Rightarrow> vec3f \<Rightarrow> vec3f \<Rightarrow> vec3f \<Rightarrow> vec3f \<Rightarrow> real \<Rightarrow> real \<Rightarrow> vec3f \<Rightarrow> nat \<Rightarrow> nat \<Rightarrow> vec3f \<Rightarrow> vec3f option" where
  "renderPBR_loop u p n v baseCol metal roughness F0 0 i Lo = Some Lo"
| "renderPBR_loop u p n v baseCol metal roughness F0 (Suc k) i Lo =
     do { c \<leftarrow> renderPBR_light u p n v baseCol metal roughness F0 i;
          renderPBR_loop u p n v baseCol metal roughness F0 k (Suc i) (Lo + c) }"

definition renderPBR ::
  "Uniforms \<Rightarrow> vec3f \<Rightarrow> vec3f \<Rightarrow> vec3f \<Rightarrow> vec3f \<Rightarrow> real \<Rightarrow> real \<Rightarrow> real \<Rightarrow> vec3f option" where
  "renderPBR u p n v baseCol metal roughness ao =
     (let F0 = mix_vec3 (splat 0.04) baseCol metal
      in do { Lo \<leftarrow> renderPBR_loop u p n v baseCol metal roughness F0 3 0 (splat 0);
              kS \<leftarrow> fresnelSchlick (max (dot n v) 0) F0;
              skyN \<leftarrow> getSky n;
              reflection \<leftarrow> getSky (reflect (- v) n);
              let kD = (splat 1 - kS) * splat (1 - metal);
                  irradiance = skyN * splat 0.15;
                  diffuse = irradiance * baseCol;
                  specIBL = reflection * splat (1 - roughness);
                  ambient = (kD * diffuse + specIBL * kS) * splat ao
              in Some (Lo + ambient) })"

section \<open>Ray marching\<close>

text \<open>
  The loop of \<^verbatim>\<open>raymarch\<close> on the state \<^verbatim>\<open>(t, m, hit)\<close>: a hit sets \<^verbatim>\<open>m\<close> and \<^verbatim>\<open>hit\<close> and
  leaves the loop; \<^verbatim>\<open>t > 30.0\<close> leaves it with the state as it is; otherwise \<^verbatim>\<open>t\<close> advances.
\<close>

fun raymarch_loop :: "Uniforms \<Rightarrow> vec3f \<Rightarrow> vec3f \<Rightarrow> nat \<Rightarrow> real \<times> real \<times> bool \<Rightarrow> real \<times> real \<times> bool" where
  "raymarch_loop u ro rd 0 s = s"
| "raymarch_loop u ro rd (Suc n) s =
     (case s of (t, m, hit) \<Rightarrow>
        let pos = ro + rd * splat t;
            h = map_scene u pos
        in if v2x h < EPSILON then (t, v2y h, True)
           else if t > 30 then (t, m, hit)
           else raymarch_loop u ro rd n (t + v2x h * 0.7, m, hit))"

definition raymarch :: "Uniforms \<Rightarrow> vec3f \<Rightarrow> vec3f \<Rightarrow> vec3f" where
  "raymarch u ro rd =
     (case raymarch_loop u ro rd 160 (0, - 1, False) of
        (t, m, hit) \<Rightarrow> if hit then Vec3f t m 1 else Vec3f t (- 1) 0)"

section \<open>Arcing electricity\<close>

text \<open>
  The value that one sample of \<^verbatim>\<open>getGlow\<close> adds to \<^verbatim>\<open>acc\<close> when \<^verbatim>\<open>geoD < 0.4\<close>.
\<close>

definition getGlow_term :: "Uniforms \<Rightarrow> real \<Rightarrow> vec3f \<Rightarrow> real \<Rightarrow> vec3f" where
  "getGlow_term u tParams pos geoD =
     (let noiseVal = sparkNoise (pos * splat 3.5) tParams;
          distToLine = \<bar>noiseVal - 0.4\<bar>;
          intensity = 0.0003 / (distToLine * distToLine * distToLine + 0.000001);
          branchMask = smoothstep 0.35 0.55 (noise (pos * splat 4 + Vec3f 0 (tParams * 0.5) 0));
          heat = smoothstep 5 60 intensity;
          color = mix_vec3 (xyz (electricColor u)) (Vec3f 1 1 1) heat;
          surfaceFade = smoothstep 0.3 0 geoD
      in color * splat intensity * splat surfaceFade * splat branchMask
           * splat (electricIntensity u) * splat 0.002)"

fun getGlow_loop :: "Uniforms \<Rightarrow> vec3f \<Rightarrow> vec3f \<Rightarrow> real \<Rightarrow> real \<Rightarrow> nat \<Rightarrow> real \<Rightarrow> vec3f \<Rightarrow> vec3f" where
  "getGlow_loop u ro rd tParams tEnd 0 t acc = acc"
| "getGlow_loop u ro rd tParams tEnd (Suc n) t acc =
     (if t > tEnd then acc
      else let pos = ro + rd * splat t;
               geoD = sdFractal u pos;
               acc1 = (if geoD < 0.4 then acc + getGlow_term u tParams pos geoD else acc)
           in getGlow_loop u ro rd tParams tEnd n (t + 0.15) acc1)"

definition getGlow :: "Uniforms \<Rightarrow> vec3f \<Rightarrow> vec3f \<Rightarrow> real \<Rightarrow> vec3f" where
  "getGlow u ro rd maxT =
     (let tParams = time u * electricSpeed u * 2;
          tEnd = min maxT 15;
          t = 0.5 + hash (rd * splat (time u)) * 0.2
      in getGlow_loop u ro rd tParams tEnd 35 t (splat 0))"

section \<open>The fragment stage\<close>

text \<open>
  \<^verbatim>\<open>fs_main\<close> is cut into the pieces the claims talk about, in the order of the source:
  the number of samples, the ray of sample \<open>i\<close>, the materials, the shading of a hit, the
  colour of one sample before and after the electricity glow, the sum over the samples,
  and the post-processing (vignette, grain, tone map, gamma).
\<close>

definition aaSamples :: "Uniforms \<Rightarrow> nat" where
  "aaSamples u = (if isRendering u > 0.5 then 2 else 1)"

definition sampleRay :: "Uniforms \<Rightarrow> vec2f \<Rightarrow> nat \<Rightarrow> vec3f" where
  "sampleRay u uv i =
     (let ro = xyz (cameraPos u);
          ta = Vec3f 0 (- 0.5) 0;
          ww = normalize_vec3 (ta - ro);
          uu = normalize_vec3 (cross ww (Vec3f 0 1 0));
          vv = normalize_vec3 (cross uu ww);
          offset = (if aaSamples u > 1
                    then let r1 = fract (sin (real i * 12.9898 + v2x uv) * 43758.5453);
                             r2 = fract (cos (real i * 4.1414 + v2y uv) * 53211.5543)
                         in (Vec2f r1 r2 - splat2 0.5) / resolution u
                    else splat2 0);
          p = (- resolution u + splat2 2 * (uv + offset) * resolution u)
                / splat2 (v2y (resolution u))
      in normalize_vec3 (splat (v2x p) * uu + splat (v2y p) * vv + splat 2 * ww))"

text \<open>
  The two material branches return \<^verbatim>\<open>(albedo, roughness, metallic, nor)\<close> as they stand
  when \<^verbatim>\<open>renderPBR\<close> is called.
\<close>

definition floorMaterial :: "Uniforms \<Rightarrow> vec3f \<Rightarrow> vec3f \<Rightarrow> vec3f \<times> real \<times> real \<times> vec3f" where
  "floorMaterial u pos nor =
     (let f = fbm (pos * splat 2);
          albedo = splat 0.05 + splat (f * 0.02);
          roughness = 0.3 + f * 0.2;
          bump = normalize_vec3 (Vec3f (fbm (pos * splat 10)) 0.5 (fbm (pos * splat 10 + splat 1)));
          nor1 = normalize_vec3 (nor + bump * splat 0.05);
          falloff = exp (- length_vec2 (Vec2f (vx pos) (vz pos)) * 0.1);
          roughness1 = mix roughness 1 (1 - falloff);
          tParams = time u * electricSpeed u * 2;
          sparkN = sparkNoise (pos * splat 3.5) tParams;
          arcVal = \<bar>sparkN - 0.4\<bar>;
          electricGlow = 0.0003 / (arcVal * arcVal * arcVal + 0.00001);
          albedo1 = albedo + xyz (electricColor u) * splat electricGlow
                      * splat (electricIntensity u) * splat 0.02
      in (albedo1, roughness1, 0, nor1))"

definition fractalMaterial :: "Uniforms \<Rightarrow> vec3f \<Rightarrow> vec3f \<Rightarrow> real \<Rightarrow> real \<Rightarrow> vec3f \<times> real \<times> real \<times> vec3f" where
  "fractalMaterial u pos nor ao micro =
     (let curv = clamp (1 - ao) 0 1;
          albedo = mix_vec3 (xyz (baseColor u)) (Vec3f 0.8 0.7 0.5) (micro * 0.2);
          roughness = mix (detail u) 0.8 curv;
          metal = mix (metallic u) 0 (curv * 0.5);
          scratches = noise (pos * splat 50 * Vec3f 1 10 1);
          roughness1 = roughness + scratches * 0.1;
          noiseN = fbm (pos * splat 20);
          nor1 = normalize_vec3 (nor + splat noiseN * splat 0.02)
      in (albedo, roughness1, metal, nor1))"

definition shadeHit :: "Uniforms \<Rightarrow> vec3f \<Rightarrow> vec3f \<Rightarrow> real \<Rightarrow> real \<Rightarrow> vec3f option" where
  "shadeHit u ro rd t m =
     (let pos = ro + rd * splat t;
          nor0 = calcNormal u pos;
          view = - rd;
          ao = getAO u pos nor0;
          micro = fbm (pos * splat 8)
      in case (if m > 1.5 then floorMaterial u pos nor0
               else fractalMaterial u pos nor0 ao micro) of
           (albedo, roughness, metal, nor) \<Rightarrow>
             do { col \<leftarrow> renderPBR u pos nor view albedo metal roughness ao;
                  col1 \<leftarrow>
                    (if isRendering u > 0.5 \<and> roughness < 0.5
                     then let rDir = reflect rd nor;
                              refRes = raymarch u (pos + nor * splat 0.05) rDir
                          in if vz refRes > 0.5
                             then let rPos = pos + nor * splat 0.05 + rDir * splat (vx refRes);
                                      rNor = calcNormal u rPos;
                                      rAO = getAO u rPos rNor
                                  in do { rLight \<leftarrow> renderPBR u rPos rNor (- rDir)
                                                      (xyz (baseColor u)) (metallic u) 0.5 rAO;
                                          F \<leftarrow> fresnelSchlick (max (dot nor view) 0)
                                                 (mix_vec3 (splat 0.04) albedo metal);
                                          Some (mix_vec3v col rLight (F * splat (1 - roughness))) }
                             else Some col
                     else Some col);
                  Some (mix_vec3 col1 (Vec3f 0.01 0.015 0.02) (1 - exp (- 0.02 * t * t))) })"

text \<open>
  The colour of sample \<open>i\<close> before the electricity glow is added (the sky for a miss, the
  shaded surface for a hit), and after it.
\<close>

definition surfaceColor :: "Uniforms \<Rightarrow> vec2f \<Rightarrow> nat \<Rightarrow> vec3f option" where
  "surfaceColor u uv i =
     (let ro = xyz (cameraPos u);
          rd = sampleRay u uv i;
          res = raymarch u ro rd;
          t = vx res;
          m = vy res;
          hit = vz res
      in if hit > 0.5 then shadeHit u ro rd t m
         else do { sky \<leftarrow> getSky rd; Some (sky * splat 0.05) })"

definition sampleColor :: "Uniforms \<Rightarrow> vec2f \<Rightarrow> nat \<Rightarrow> vec3f option" where
  "sampleColor u uv i =
     do { col \<leftarrow> surfaceColor u uv i;
          if electricIntensity u > 0.01
          then let ro = xyz (cameraPos u);
                   rd = sampleRay u uv i;
                   t = vx (raymarch u ro rd);
                   electricity = getGlow u ro rd t
               in Some (col + electricity)
          else Some col }"

fun fs_main_loop :: "Uniforms \<Rightarrow> vec2f \<Rightarrow> nat \<Rightarrow> nat \<Rightarrow> vec3f \<Rightarrow> vec3f option" where
  "fs_main_loop u uv 0 i finalColor = Some finalColor"
| "fs_main_loop u uv (Suc k) i finalColor =
     do { col \<leftarrow> sampleColor u uv i;
          fs_main_loop u uv k (Suc i) (finalColor + col) }"

text \<open>
  The vignette: the interior term \<^verbatim>\<open>16.0 * q.x * q.y * (1.0 - q.x) * (1.0 - q.y)\<close> and
  the factor \<^verbatim>\<open>0.5 + 0.5 * pow(term, u.vignette)\<close> that multiplies the colour.
\<close>

definition vignetteTerm :: "vec2f \<Rightarrow> real" where
  "vignetteTerm q = 16 * v2x q * v2y q * (1 - v2x q) * (1 - v2y q)"

definition vignetteFactor :: "vec2f \<Rightarrow> real \<Rightarrow> real option" where
  "vignetteFactor q e =
     do { pw \<leftarrow> finite_of (pow (vignetteTerm q) e);
          Some (0.5 + 0.5 * pw) }"

definition grain :: "Uniforms \<Rightarrow> vec2f \<Rightarrow> real" where
  "grain u uv =
     (let noiseG = fract (sin (dot2 (uv * resolution u)
                                 (Vec2f 12.9898 78.233 * splat2 (time u))) * 43758.5453)
      in (noiseG - 0.5) * grainStrength u)"

text \<open>
  The tone map of one channel, on binary32 values: exposure, the ACES fit and the clamp;
  then the gamma correction \<^verbatim>\<open>pow(finalColor, vec3f(1.0 / 2.2))\<close> of one channel. The
  argument is the finite value of the channel after vignette and grain.
\<close>

definition aces :: "real \<Rightarrow> f32" where
  "aces col =
     (let exposed = mul_f32 (Fin col) (Fin 1.5);
          a = Fin 2.51;
          b = Fin 0.03;
          c = Fin 2.43;
          d = Fin 0.59;
          e = Fin 0.14
      in clamp_f32
           (div_f32 (mul_f32 exposed (add_f32 (mul_f32 a exposed) b))
                    (add_f32 (mul_f32 exposed (add_f32 (mul_f32 c exposed) d)) e))
           (Fin 0) (Fin 1))"

definition toneMap :: "real \<Rightarrow> f32" where
  "toneMap col = pow_f32 (aces col) (1 / 2.2)"

datatype vec3_f32 = Vec3_f32 (fx: f32) (fy: f32) (fz: f32)

datatype vec4_f32 = Vec4_f32 (f4x: f32) (f4y: f32) (f4z: f32) (f4w: f32)

definition toneMap_vec3 :: "vec3f \<Rightarrow> vec3_f32" where
  "toneMap_vec3 col = Vec3_f32 (toneMap (vx col)) (toneMap (vy col)) (toneMap (vz col))"

definition fs_main :: "Uniforms \<Rightarrow> vec2f \<Rightarrow> vec4_f32 option" where
  "fs_main u uv =
     do { total \<leftarrow> fs_main_loop u uv (aaSamples u) 0 (splat 0);
          let averaged = total / splat (real (aaSamples u));
          vig \<leftarrow> vignetteFactor uv (vignette u);
          let graded = averaged * splat vig + splat (grain u uv);
              final = toneMap_vec3 graded
          in Some (Vec4_f32 (fx final) (fy final) (fz final) (Fin 1)) }"

section \<open>The fold without the orbit trap\<close>

text \<open>
  \<^verbatim>\<open>sdFractal\<close> with every line that mentions \<^verbatim>\<open>trap\<close> removed: the loop state is
  \<^verbatim>\<open>(z, scale)\<close>.
\<close>

definition sdFractal_body_no_trap :: "Uniforms \<Rightarrow> real \<Rightarrow> vec3f \<times> real \<Rightarrow> vec3f \<times> real" where
  "sdFractal_body_no_trap u warp s =
     (case s of (z, scale) \<Rightarrow>
        let z1 = abs_vec3 z;
            z2 = (if vx z1 < vy z1 then Vec3f (vy z1) (vx z1) (vz z1) else z1);
            z3 = (if vx z2 < vz z2 then Vec3f (vz z2) (vy z2) (vx z2) else z2);
            z4 = (if vy z3 < vz z3 then Vec3f (vx z3) (vz z3) (vy z3) else z3);
            z5 = z4 * splat 2 - splat (1.2 * (detail u * 0.5 + 0.5));
            z6 = Vec3f (vx z5) (vy z5) (vz z5 + sin (vx z5 * 2 + time u) * warp * 0.05)
        in (z6, scale * 2))"

fun sdFractal_loop_no_trap :: "Uniforms \<Rightarrow> real \<Rightarrow> nat \<Rightarrow> vec3f \<times> real \<Rightarrow> vec3f \<times> real" where
  "sdFractal_loop_no_trap u warp 0 s = s"
| "sdFractal_loop_no_trap u warp (Suc n) s =
     sdFractal_loop_no_trap u warp n (sdFractal_body_no_trap u warp s)"

definition sdFractal_no_trap :: "Uniforms \<Rightarrow> vec3f \<Rightarrow> real" where
  "sdFractal_no_trap u p =
     (let warp = v4y (audio u) * 0.2;
          z0 = rotate_vec3 p (time u * animSpeed u * 0.05) (Vec3f 0 1 0);
          z1 = rotate_vec3 z0 (time u * animSpeed u * 0.02) (Vec3f 1 0 1)
      in case sdFractal_loop_no_trap u warp 4 (z1, 1) of
           (z, scale) \<Rightarrow>
             let boxDist = sdBox z (Vec3f 1.2 1.2 4.0) / scale;
                 sphereDist = (length_vec3 z - 2.5) / scale
             in max boxDist sphereDist)"

section \<open>Auxiliary notions for the proofs\<close>

text \<open>
  Names for parts of \<^verbatim>\<open>sdFractal\<close> that the proofs reason about: the largest absolute
  component of a point, the offset subtracted in every fold, the three conditional swaps,
  and the new value of \<^verbatim>\<open>z\<close> after one iteration.
\<close>

definition maxc :: "vec3f \<Rightarrow> real" where
  "maxc a = max \<bar>vx a\<bar> (max \<bar>vy a\<bar> \<bar>vz a\<bar>)"

definition foldOffset :: "Uniforms \<Rightarrow> real" where
  "foldOffset u = 1.2 * (detail u * 0.5 + 0.5)"

definition sort3 :: "vec3f \<Rightarrow> vec3f" where
  "sort3 z1 = (let
            z2 = (if vx z1 < vy z1 then Vec3f (vy z1) (vx z1) (vz z1) else z1);
            z3 = (if vx z2 < vz z2 then Vec3f (vz z2) (vy z2) (vx z2) else z2);
            z4 = (if vy z3 < vz z3 then Vec3f (vx z3) (vz z3) (vy z3) else z3) in z4)"

definition fold_z :: "Uniforms \<Rightarrow> real \<Rightarrow> vec3f \<Rightarrow> vec3f" where
  "fold_z u w z = (let z5 = sort3 (abs_vec3 z) * splat 2 - splat (foldOffset u)
     in Vec3f (vx z5) (vy z5) (vz z5 + sin (vx z5 * 2 + time u) * w * 0.05))"

text \<open>
  The numerator and the denominator of the ACES fit as functions of the exposed value,
  the value of \<open>aces\<close> when nothing overflows, and the vectors all of whose components are
  non-negative.
\<close>

definition acesNum :: "real \<Rightarrow> real" where
  "acesNum e = e * (2.51 * e + 0.03)"

definition acesDen :: "real \<Rightarrow> real" where
  "acesDen e = e * (2.43 * e + 0.59) + 0.14"



section \<open>Geometry of the fold\<close>

lemma rotate_zero: "rotate_vec3 p 0 axis = p"
  by (cases p) (simp add: rotate_vec3_def Let_def times_vec3f_def plus_vec3f_def splat_def)

lemma sort3_vx: "vx (sort3 (Vec3f a b c)) = max a (max b c)"
  unfolding sort3_def Let_def max_def by (simp split: if_splits)

lemma body_eq: "sdFractal_body u w s =
   (fold_z u w (fst s), fst (snd s) * 2, min (snd (snd s)) (length_vec3 (fold_z u w (fst s))))"
  unfolding sdFractal_body_def fold_z_def sort3_def foldOffset_def Let_def
  by (simp add: split_beta)

lemma fold_z_vx: "vx (fold_z u w z) = 2 * maxc z - foldOffset u"
  unfolding fold_z_def Let_def maxc_def abs_vec3_def
  by (simp add: sort3_vx times_vec3f_def minus_vec3f_def splat_def)

lemma maxc_ge_vx: "vx z \<le> maxc z"
  unfolding maxc_def by linarith

lemma loop4: "sdFractal_loop u w 4 s =
   sdFractal_body u w (sdFractal_body u w (sdFractal_body u w (sdFractal_body u w s)))"
  by (simp add: numeral_eq_Suc)

lemma loop4_z: "fst (sdFractal_loop u w 4 s) = fold_z u w (fold_z u w (fold_z u w (fold_z u w (fst s))))"
  by (simp add: loop4 body_eq)

lemma loop4_scale: "fst (snd (sdFractal_loop u w 4 s)) = fst (snd s) * 16"
  by (simp add: loop4 body_eq)

lemma fold4_vx: "16 * maxc z - 15 * foldOffset u \<le> vx (fold_z u w (fold_z u w (fold_z u w (fold_z u w z))))"
proof -
  let ?c = "foldOffset u"
  let ?z1 = "fold_z u w z"
  let ?z2 = "fold_z u w ?z1"
  let ?z3 = "fold_z u w ?z2"
  have 1: "2 * maxc z - ?c \<le> maxc ?z1" using maxc_ge_vx[of ?z1] by (simp add: fold_z_vx)
  have 2: "2 * maxc ?z1 - ?c \<le> maxc ?z2" using maxc_ge_vx[of ?z2] by (simp add: fold_z_vx)
  have 3: "2 * maxc ?z2 - ?c \<le> maxc ?z3" using maxc_ge_vx[of ?z3] by (simp add: fold_z_vx)
  have "vx (fold_z u w ?z3) = 2 * maxc ?z3 - ?c" by (rule fold_z_vx)
  with 1 2 3 show ?thesis by linarith
qed

lemma length_ge_vx: "vx z \<le> length_vec3 z"
proof -
  have "\<bar>vx z\<bar> = sqrt (vx z * vx z)" by simp
  also have "\<dots> \<le> sqrt (dot z z)" unfolding dot_def by (rule real_sqrt_le_mono) simp
  finally show ?thesis unfolding length_vec3_def by linarith
qed

lemma sdFractal_alt:
  "sdFractal u p =
     (let s = sdFractal_loop u (v4y (audio u) * 0.2) 4
           (rotate_vec3 (rotate_vec3 p (time u * animSpeed u * 0.05) (Vec3f 0 1 0))
              (time u * animSpeed u * 0.02) (Vec3f 1 0 1), 1, 1000)
      in max (sdBox (fst s) (Vec3f 1.2 1.2 4.0) / fst (snd s))
             ((length_vec3 (fst s) - 2.5) / fst (snd s)))"
  unfolding sdFractal_def Let_def by (simp add: split_beta)

lemma sdFractal_time0:
  assumes "time u = 0"
  shows "sdFractal u p =
     (let z = fold_z u (v4y (audio u) * 0.2) (fold_z u (v4y (audio u) * 0.2)
                (fold_z u (v4y (audio u) * 0.2) (fold_z u (v4y (audio u) * 0.2) p)))
      in max (sdBox z (Vec3f 1.2 1.2 4.0) / 16) ((length_vec3 z - 2.5) / 16))"
  unfolding sdFractal_alt Let_def loop4_z loop4_scale using assms by (simp add: rotate_zero)

lemma sdFractal_far:
  assumes "time u = 0"
  shows "maxc p - (15 * foldOffset u + 2.5) / 16 \<le> sdFractal u p"
proof -
  let ?w = "v4y (audio u) * 0.2"
  let ?z = "fold_z u ?w (fold_z u ?w (fold_z u ?w (fold_z u ?w p)))"
  have "16 * maxc p - 15 * foldOffset u \<le> length_vec3 ?z"
    using fold4_vx[of p u ?w] length_ge_vx[of ?z] by linarith
  hence "maxc p - (15 * foldOffset u + 2.5) / 16 \<le> (length_vec3 ?z - 2.5) / 16" by (simp add: field_simps)
  thus ?thesis unfolding sdFractal_time0[OF assms] Let_def by linarith
qed

lemma foldOffset_default: "foldOffset defaultParams = 0.81"
  by (simp add: foldOffset_def defaultParams_def)

lemma time_default: "time defaultParams = 0"
  by (simp add: defaultParams_def)

lemma audio_default: "audio defaultParams = Vec4f 0 0 0 0"
  by (simp add: defaultParams_def)

lemma sdFractal_far_default: "maxc p - 0.915625 \<le> sdFractal defaultParams p"
  using sdFractal_far[OF time_default, of p] by (simp add: foldOffset_default)

lemma fold_z_default:
  "fold_z defaultParams 0 z = sort3 (abs_vec3 z) * splat 2 - splat 0.81"
  by (simp add: fold_z_def foldOffset_default Let_def)

lemma sort3_sorted: "c \<le> b \<Longrightarrow> b \<le> a \<Longrightarrow> sort3 (Vec3f a b c) = Vec3f a b c"
  by (simp add: sort3_def)

lemma fold_axis0: "0 \<le> s \<Longrightarrow> fold_z defaultParams 0 (Vec3f 0 0 s) = Vec3f (2 * s - 0.81) (- 0.81) (- 0.81)"
  by (simp add: fold_z_default abs_vec3_def sort3_def Let_def times_vec3f_def minus_vec3f_def splat_def)

lemma fold_sorted:
  "0 \<le> c \<Longrightarrow> c \<le> b \<Longrightarrow> b \<le> a \<Longrightarrow>
   fold_z defaultParams 0 (Vec3f a b c) = Vec3f (2 * a - 0.81) (2 * b - 0.81) (2 * c - 0.81)"
  by (simp add: fold_z_default abs_vec3_def sort3_sorted times_vec3f_def minus_vec3f_def splat_def)

lemma fold_neg:
  "0 \<le> c \<Longrightarrow> c \<le> a \<Longrightarrow>
   fold_z defaultParams 0 (Vec3f a (- c) (- c)) = Vec3f (2 * a - 0.81) (2 * c - 0.81) (2 * c - 0.81)"
  by (simp add: fold_z_default abs_vec3_def sort3_sorted times_vec3f_def minus_vec3f_def splat_def)

lemma fold4_axis:
  assumes "0.81 \<le> s"
  shows "fold_z defaultParams 0 (fold_z defaultParams 0 (fold_z defaultParams 0 (fold_z defaultParams 0 (Vec3f 0 0 s))))
     = Vec3f (16 * s - 12.15) 0.81 0.81"
proof -
  have 1: "fold_z defaultParams 0 (Vec3f 0 0 s) = Vec3f (2 * s - 0.81) (- 0.81) (- 0.81)"
    using assms by (simp add: fold_axis0)
  have 2: "fold_z defaultParams 0 (Vec3f (2 * s - 0.81) (- 0.81) (- 0.81)) = Vec3f (4 * s - 2.43) 0.81 0.81"
    using assms fold_neg[of "0.81" "2 * s - 0.81"] by simp
  have 3: "fold_z defaultParams 0 (Vec3f (4 * s - 2.43) 0.81 0.81) = Vec3f (8 * s - 5.67) 0.81 0.81"
    using assms fold_sorted[of "0.81" "0.81" "4 * s - 2.43"] by simp
  have 4: "fold_z defaultParams 0 (Vec3f (8 * s - 5.67) 0.81 0.81) = Vec3f (16 * s - 12.15) 0.81 0.81"
    using assms fold_sorted[of "0.81" "0.81" "8 * s - 5.67"] by simp
  show ?thesis unfolding 1 2 3 4 ..
qed

lemma sdBox_axis:
  assumes "0 \<le> X" "bx \<le> X" "\<bar>y\<bar> \<le> by" "\<bar>z\<bar> \<le> bz"
  shows "sdBox (Vec3f X y z) (Vec3f bx by bz) = X - bx"
  using assms
  by (simp add: sdBox_def Let_def abs_vec3_def minus_vec3f_def max_vec3_def splat_def
      length_vec3_def dot_def max_def min_def)

lemma length_axis:
  assumes "0 \<le> X"
  shows "length_vec3 (Vec3f X 0.81 0.81) \<le> X + 1.3"
proof -
  have "X * X + 0.81 * 0.81 + 0.81 * 0.81 \<le> (X + 1.3)\<^sup>2"
    using assms by (simp add: power2_eq_square algebra_simps)
  moreover have "0 \<le> X + 1.3" using assms by simp
  ultimately have "sqrt (X * X + 0.81 * 0.81 + 0.81 * 0.81) \<le> X + 1.3"
    by (rule real_le_lsqrt[rotated])
  thus ?thesis by (simp add: length_vec3_def dot_def)
qed

lemma sdFractal_axis:
  assumes "0.834375 \<le> s"
  shows "sdFractal defaultParams (Vec3f 0 0 s) = s - 0.834375"
proof -
  let ?X = "16 * s - 12.15"
  have s: "0.81 \<le> s" using assms by simp
  have X: "0 \<le> ?X" using assms by simp
  have b: "sdBox (Vec3f ?X 0.81 0.81) (Vec3f 1.2 1.2 4.0) = ?X - 1.2"
    using assms by (intro sdBox_axis) simp_all
  have "sdFractal defaultParams (Vec3f 0 0 s) =
      max ((?X - 1.2) / 16) ((length_vec3 (Vec3f ?X 0.81 0.81) - 2.5) / 16)"
    unfolding sdFractal_time0[OF time_default] audio_default Let_def
    using fold4_axis[OF s] b by simp
  also have "\<dots> = (?X - 1.2) / 16"
    using length_axis[OF X] by (simp add: max_def)
  finally show ?thesis by simp
qed

lemma fold4_origin:
  "fold_z defaultParams 0 (fold_z defaultParams 0 (fold_z defaultParams 0 (fold_z defaultParams 0 (Vec3f 0 0 0))))
     = Vec3f 0.81 0.81 0.81"
proof -
  have 1: "fold_z defaultParams 0 (Vec3f 0 0 0) = Vec3f (- 0.81) (- 0.81) (- 0.81)"
    by (simp add: fold_axis0)
  have 2: "fold_z defaultParams 0 (Vec3f (- 0.81) (- 0.81) (- 0.81)) = Vec3f 0.81 0.81 0.81"
    by (simp add: fold_z_default abs_vec3_def sort3_sorted times_vec3f_def minus_vec3f_def splat_def)
  have 3: "fold_z defaultParams 0 (Vec3f 0.81 0.81 0.81) = Vec3f 0.81 0.81 0.81"
    using fold_sorted[of "0.81" "0.81" "0.81"] by simp
  show ?thesis unfolding 1 2 3 ..
qed

lemma sdFractal_origin: "sdFractal defaultParams (Vec3f 0 0 0) < 0"
proof -
  have b: "sdBox (Vec3f 0.81 0.81 0.81) (Vec3f 1.2 1.2 4.0) = - 0.39"
    by (simp add: sdBox_def Let_def abs_vec3_def minus_vec3f_def max_vec3_def splat_def
      length_vec3_def dot_def)
  have "length_vec3 (Vec3f 0.81 0.81 0.81) \<le> 0.81 + 1.3"
    by (rule length_axis) simp
  hence l: "length_vec3 (Vec3f 0.81 0.81 0.81) < 2.5" by simp
  have "sdFractal defaultParams (Vec3f 0 0 0) =
      max (- 0.39 / 16) ((length_vec3 (Vec3f 0.81 0.81 0.81) - 2.5) / 16)"
    unfolding sdFractal_time0[OF time_default] audio_default Let_def
    using fold4_origin b by simp
  thus ?thesis using l by (simp add: max_def)
qed

section \<open>The scene field\<close>

lemma body_no_trap:
  "sdFractal_body_no_trap u w (fst s, fst (snd s)) =
     (fst (sdFractal_body u w s), fst (snd (sdFractal_body u w s)))"
  unfolding sdFractal_body_no_trap_def sdFractal_body_def Let_def
  by (simp add: split_beta)

lemma loop_no_trap:
  "sdFractal_loop_no_trap u w n (fst s, fst (snd s)) =
     (fst (sdFractal_loop u w n s), fst (snd (sdFractal_loop u w n s)))"
proof (induction n arbitrary: s)
  case 0
  show ?case by simp
next
  case (Suc n)
  show ?case using Suc.IH[of "sdFractal_body u w s"] by (simp add: body_no_trap)
qed

text \<open>
  Claim C9: the distance returned by \<^verbatim>\<open>sdFractal\<close> does not depend on the variable
  \<^verbatim>\<open>trap\<close>: the function with the trap computation removed returns, for every uniform
  block (parameters and time) and every point, the value of the function as written.
\<close>

theorem sdFractal_trap_dead: "sdFractal_no_trap u p = sdFractal u p"
proof -
  let ?w = "v4y (audio u) * 0.2"
  let ?z = "rotate_vec3 (rotate_vec3 p (time u * animSpeed u * 0.05) (Vec3f 0 1 0))
              (time u * animSpeed u * 0.02) (Vec3f 1 0 1)"
  have "sdFractal_loop_no_trap u ?w 4 (?z, 1) =
     (fst (sdFractal_loop u ?w 4 (?z, 1, 1000)), fst (snd (sdFractal_loop u ?w 4 (?z, 1, 1000))))"
    using loop_no_trap[of u ?w 4 "(?z, 1, 1000)"] by simp
  thus ?thesis
    unfolding sdFractal_no_trap_def sdFractal_alt Let_def by simp
qed

text \<open>
  Claim C2: for every point, \<^verbatim>\<open>map\<close> reports the material 1.0 (fractal) exactly when the
  biased fractal distance \<^verbatim>\<open>sdFractal(p) - 0.01\<close> is strictly less than the floor distance
  \<^verbatim>\<open>p.y + 2.2\<close>, and 2.0 (floor) otherwise; with the default parameters at time 0 the
  point (0,0,0) is fractal and the point (10,-2.2,10) is floor.
\<close>

theorem map_material:
  "v2y (map_scene u p) = (if sdFractal u p - 0.01 < vy p + 2.2 then 1 else 2)
   \<and> v2y (map_scene defaultParams (Vec3f 0 0 0)) = 1
   \<and> v2y (map_scene defaultParams (Vec3f 10 (- 2.2) 10)) = 2"
proof (intro conjI)
  show "v2y (map_scene u p) = (if sdFractal u p - 0.01 < vy p + 2.2 then 1 else 2)"
    by (simp add: map_scene_def Let_def)
  show "v2y (map_scene defaultParams (Vec3f 0 0 0)) = 1"
    using sdFractal_origin by (simp add: map_scene_def Let_def)
  show "v2y (map_scene defaultParams (Vec3f 10 (- 2.2) 10)) = 2"
  proof -
    have "9 \<le> sdFractal defaultParams (Vec3f 10 (- 2.2) 10)"
      using sdFractal_far_default[of "Vec3f 10 (- 2.2) 10"] by (simp add: maxc_def)
    thus ?thesis by (simp add: map_scene_def Let_def)
  qed
qed

section \<open>The ray marcher\<close>

lemma map_axis:
  assumes "0.834375 \<le> s"
  shows "map_scene defaultParams (Vec3f 0 0 s) =
     (if s - 0.844375 < 2.2 then Vec2f (s - 0.844375) 1 else Vec2f 2.2 2)"
  using sdFractal_axis[OF assms] by (simp add: map_scene_def Let_def)

lemma raymarch_loop_Suc:
  "raymarch_loop u ro rd (Suc n) (t, m, hit) =
     (let h = map_scene u (ro + rd * splat t)
      in if v2x h < EPSILON then (t, v2y h, True)
         else if t > 30 then (t, m, hit)
         else raymarch_loop u ro rd n (t + v2x h * 0.7, m, hit))"
  by (simp add: Let_def)

lemma axis_step:
  assumes "t \<le> 19.165625"
  shows "raymarch_loop defaultParams (Vec3f 0 0 20) (Vec3f 0 0 (- 1)) (Suc n) (t, m, hit) =
    (let g = 19.155625 - t in
     if g < 2.2 then (if g < 0.0001 then (t, 1, True)
                      else if t > 30 then (t, m, hit)
                      else raymarch_loop defaultParams (Vec3f 0 0 20) (Vec3f 0 0 (- 1)) n (t + g * 0.7, m, hit))
     else if t > 30 then (t, m, hit)
     else raymarch_loop defaultParams (Vec3f 0 0 20) (Vec3f 0 0 (- 1)) n (t + 1.54, m, hit))"
proof -
  have p: "Vec3f 0 0 20 + Vec3f 0 0 (- 1) * splat t = Vec3f 0 0 (20 - t)"
    by (simp add: plus_vec3f_def times_vec3f_def splat_def)
  have s: "0.834375 \<le> 20 - t" using assms by simp
  show ?thesis
    unfolding raymarch_loop_Suc p map_axis[OF s] Let_def EPSILON_def
    by simp
qed

lemma axis_step_num:
  assumes "t \<le> 19.165625"
  shows "raymarch_loop defaultParams (Vec3f 0 0 20) (Vec3f 0 0 (- 1)) (numeral k) (t, m, hit) =
    (let g = 19.155625 - t in
     if g < 2.2 then (if g < 0.0001 then (t, 1, True)
                      else if t > 30 then (t, m, hit)
                      else raymarch_loop defaultParams (Vec3f 0 0 20) (Vec3f 0 0 (- 1)) (pred_numeral k) (t + g * 0.7, m, hit))
     else if t > 30 then (t, m, hit)
     else raymarch_loop defaultParams (Vec3f 0 0 20) (Vec3f 0 0 (- 1)) (pred_numeral k) (t + 1.54, m, hit))"
  using axis_step[OF assms, of "pred_numeral k"] by (simp add: numeral_eq_Suc)

lemma axis_run:
  "raymarch_loop defaultParams (Vec3f 0 0 20) (Vec3f 0 0 (- 1)) 160 (0, - 1, False)
     = (3064892907559 / 160000000000, 1, True)"
  by (simp add: axis_step_num Let_def)

lemma raymarch_axis:
  "raymarch defaultParams (Vec3f 0 0 20) (Vec3f 0 0 (- 1)) = Vec3f (3064892907559 / 160000000000) 1 1"
  by (simp add: raymarch_def axis_run)

lemma raymarch_loop_clear:
  assumes clear: "\<And>t. 0 \<le> t \<Longrightarrow> 2 \<le> v2x (map_scene u (ro + rd * splat t))"
    and "0 \<le> t" and "30 < t + real n"
  shows "\<exists>t'. raymarch_loop u ro rd n (t, m, False) = (t', m, False) \<and> 30 < t'"
  using assms(2,3)
proof (induction n arbitrary: t)
  case 0
  thus ?case by simp
next
  case (Suc n)
  let ?h = "v2x (map_scene u (ro + rd * splat t))"
  have h: "2 \<le> ?h" using clear[OF Suc.prems(1)] .
  hence nohit: "\<not> ?h < EPSILON" by (simp add: EPSILON_def)
  show ?case
  proof (cases "30 < t")
    case True
    thus ?thesis using nohit by (simp add: raymarch_loop_Suc Let_def)
  next
    case False
    have 1: "0 \<le> t + ?h * 0.7" using h Suc.prems(1) by simp
    have 2: "30 < (t + ?h * 0.7) + real n" using h Suc.prems(2) by simp
    from Suc.IH[OF 1 2] show ?thesis using nohit False by (simp add: raymarch_loop_Suc Let_def)
  qed
qed

lemma map_up_ray:
  assumes "0 \<le> t"
  shows "2 \<le> v2x (map_scene defaultParams (Vec3f 0 0 20 + Vec3f 0 1 0 * splat t))"
proof -
  have p: "Vec3f 0 0 20 + Vec3f 0 1 0 * splat t = Vec3f 0 t 20"
    by (simp add: plus_vec3f_def times_vec3f_def splat_def)
  have "20 \<le> maxc (Vec3f 0 t 20)" by (simp add: maxc_def)
  hence "19 \<le> sdFractal defaultParams (Vec3f 0 t 20)"
    using sdFractal_far_default[of "Vec3f 0 t 20"] by simp
  thus ?thesis unfolding p using assms by (simp add: map_scene_def Let_def)
qed

lemma raymarch_up:
  "\<exists>t'. raymarch defaultParams (Vec3f 0 0 20) (Vec3f 0 1 0) = Vec3f t' (- 1) 0 \<and> 30 < t'"
proof -
  have "\<exists>t'. raymarch_loop defaultParams (Vec3f 0 0 20) (Vec3f 0 1 0) 160 (0, - 1, False)
          = (t', - 1, False) \<and> 30 < t'"
    by (rule raymarch_loop_clear[OF map_up_ray]) simp_all
  thus ?thesis by (auto simp: raymarch_def)
qed

text \<open>
  Claim C1, as amended: with the default parameters at time 0, the ray from (0,0,20) in
  direction (0,0,-1) returns the hit flag 1.0 and a distance below 30; the ray from the
  same origin in direction (0,1,0) returns the hit flag 0.0 and a distance strictly
  greater than the far bound 30, since the loop leaves only once \<^verbatim>\<open>t > 30.0\<close> holds and
  returns \<^verbatim>\<open>t\<close> as it stands.
\<close>

theorem raymarch_hit_and_miss:
  "vz (raymarch defaultParams (Vec3f 0 0 20) (Vec3f 0 0 (- 1))) = 1
   \<and> vx (raymarch defaultParams (Vec3f 0 0 20) (Vec3f 0 0 (- 1))) < 30
   \<and> vz (raymarch defaultParams (Vec3f 0 0 20) (Vec3f 0 1 0)) = 0
   \<and> 30 < vx (raymarch defaultParams (Vec3f 0 0 20) (Vec3f 0 1 0))"
  using raymarch_up by (auto simp: raymarch_axis)

text \<open>
  The distance returned for the ray that misses is not the far bound itself.
\<close>

theorem raymarch_miss_not_at_far_bound:
  "vx (raymarch defaultParams (Vec3f 0 0 20) (Vec3f 0 1 0)) \<noteq> 30"
  using raymarch_up by auto

section \<open>Ranges, tone map and vignette\<close>









lemma acesDen_ge: "1 / 10 \<le> acesDen e"
proof -
  have "0 \<le> (243 / 100) * (e + 59 / 486)\<^sup>2" by simp
  thus ?thesis by (simp add: acesDen_def power2_eq_square algebra_simps)
qed















text \<open>
  In exact arithmetic the ACES quotient is non-decreasing on non-negative exposed values.
  This is a fact about the curve, not about the order of two binary32 outputs, whose
  rounding is not modelled.
\<close>

lemma acesDen_pos: "0 < acesDen e"
  using acesDen_ge[of e] by simp

lemma aces_cross:
  "acesNum b * acesDen a - acesNum a * acesDen b =
     (b - a) * (1.408 * a * b + 0.3514 * (a + b) + 0.0042)"
  unfolding acesNum_def acesDen_def by (simp add: field_simps)

lemma aces_ratio_mono:
  assumes "0 \<le> a" "a \<le> b"
  shows "acesNum a / acesDen a \<le> acesNum b / acesDen b"
proof -
  have b: "0 \<le> b" using assms by simp
  have "0 \<le> (b - a) * (1.408 * a * b + 0.3514 * (a + b) + 0.0042)"
    using assms b by (intro mult_nonneg_nonneg add_nonneg_nonneg) simp_all
  hence "acesNum a * acesDen b \<le> acesNum b * acesDen a"
    using aces_cross[of b a] by simp
  thus ?thesis
    using acesDen_pos[of a] acesDen_pos[of b] by (simp add: frac_le_eq field_simps)
qed






section \<open>The electricity glow and the lighting divisors\<close>













lemma vec3_add_zero: "a + splat 0 = a"
  by (cases a) (simp add: plus_vec3f_def splat_def)

lemma getGlow_loop_idle:
  assumes "\<And>k. k < n \<Longrightarrow> t + 0.15 * real k \<le> tEnd \<Longrightarrow>
             sdFractal u (ro + rd * splat (t + 0.15 * real k)) < 0.4 \<Longrightarrow>
             getGlow_term u tParams (ro + rd * splat (t + 0.15 * real k))
               (sdFractal u (ro + rd * splat (t + 0.15 * real k))) = splat 0"
  shows "getGlow_loop u ro rd tParams tEnd n t acc = acc"
  using assms
proof (induction n arbitrary: t)
  case 0
  show ?case by simp
next
  case (Suc n)
  show ?case
  proof (cases "t > tEnd")
    case True
    thus ?thesis by simp
  next
    case False
    let ?pos = "ro + rd * splat t"
    have first: "sdFractal u ?pos < 0.4 \<Longrightarrow> getGlow_term u tParams ?pos (sdFractal u ?pos) = splat 0"
      using Suc.prems[of 0] False by simp
    have rest: "getGlow_loop u ro rd tParams tEnd n (t + 0.15) acc = acc"
    proof (rule Suc.IH)
      fix k
      assume k: "k < n" "t + 0.15 + 0.15 * real k \<le> tEnd"
        "sdFractal u (ro + rd * splat (t + 0.15 + 0.15 * real k)) < 0.4"
      have e: "t + 0.15 + 0.15 * real k = t + 0.15 * real (Suc k)" by (simp add: algebra_simps)
      show "getGlow_term u tParams (ro + rd * splat (t + 0.15 + 0.15 * real k))
               (sdFractal u (ro + rd * splat (t + 0.15 + 0.15 * real k))) = splat 0"
        using Suc.prems[of "Suc k"] k unfolding e by simp
    qed
    show ?thesis using False first rest by (simp add: Let_def vec3_add_zero)
  qed
qed

lemma getGlow_term_off:
  assumes "electricIntensity u = 0"
  shows "getGlow_term u tParams pos geoD = splat 0"
  unfolding getGlow_term_def Let_def using assms by (simp add: times_vec3f_def splat_def)

lemma getGlow_off:
  assumes "electricIntensity u = 0"
  shows "getGlow u ro rd maxT = splat 0"
  unfolding getGlow_def Let_def
  by (rule getGlow_loop_idle) (rule getGlow_term_off[OF assms])

lemma getGlow_gated:
  assumes "\<forall>k<35. 0.5 + hash (rd * splat (time u)) * 0.2 + 0.15 * real k \<le> min maxT 15 \<longrightarrow>
      0.4 \<le> sdFractal u (ro + rd * splat (0.5 + hash (rd * splat (time u)) * 0.2 + 0.15 * real k))"
  shows "getGlow u ro rd maxT = splat 0"
  unfolding getGlow_def Let_def
proof (rule getGlow_loop_idle)
  fix k :: nat
  let ?t = "0.5 + hash (rd * splat (time u)) * 0.2 + 0.15 * real k"
  assume "k < 35" "?t \<le> min maxT 15" "sdFractal u (ro + rd * splat ?t) < 0.4"
  hence False using assms by fastforce
  thus "getGlow_term u (time u * electricSpeed u * 2) (ro + rd * splat ?t)
          (sdFractal u (ro + rd * splat ?t)) = splat 0" ..
qed

lemma sampleColor_off:
  assumes "electricIntensity u = 0"
  shows "sampleColor u uv i = surfaceColor u uv i"
  unfolding sampleColor_def using assms by simp

text \<open>
  Claim C6: when \<^verbatim>\<open>electricIntensity\<close> is 0, the colour of a sample equals the colour
  computed without the glow pass, and \<^verbatim>\<open>getGlow\<close> itself returns the zero colour; and
  when every marched sample point (the points at \<^verbatim>\<open>t = t0 + 0.15 k\<close>, \<open>k < 35\<close>, that do
  not exceed the cap) has a fractal distance of at least 0.4, \<^verbatim>\<open>getGlow\<close> returns the
  zero colour.
\<close>

theorem volumetric_gating:
  "(electricIntensity u = 0 \<longrightarrow>
      sampleColor u uv i = surfaceColor u uv i \<and> getGlow u ro rd maxT = splat 0)
   \<and> ((\<forall>k<35. 0.5 + hash (rd * splat (time u)) * 0.2 + 0.15 * real k \<le> min maxT 15 \<longrightarrow>
          0.4 \<le> sdFractal u (ro + rd * splat (0.5 + hash (rd * splat (time u)) * 0.2 + 0.15 * real k)))
       \<longrightarrow> getGlow u ro rd maxT = splat 0)"
  using sampleColor_off getGlow_off getGlow_gated by blast

lemma sdFractal_up_ray: "0.4 \<le> sdFractal defaultParams (Vec3f 0 0 20 + Vec3f 0 1 0 * splat t)"
proof -
  have p: "Vec3f 0 0 20 + Vec3f 0 1 0 * splat t = Vec3f 0 t 20"
    by (simp add: plus_vec3f_def times_vec3f_def splat_def)
  have "20 \<le> maxc (Vec3f 0 t 20)" by (simp add: maxc_def)
  hence "19 \<le> sdFractal defaultParams (Vec3f 0 t 20)"
    using sdFractal_far_default[of "Vec3f 0 t 20"] by simp
  thus ?thesis unfolding p by simp
qed

text \<open>
  The hypotheses of C6 hold for the default parameters with \<^verbatim>\<open>electricIntensity\<close> set to
  0, and, with the default intensity 12, for the ray from (0,0,20) straight up.
\<close>

theorem volumetric_gating_witness:
  "sampleColor (defaultParams\<lparr>electricIntensity := 0\<rparr>) (Vec2f 0.5 0.5) 0
     = surfaceColor (defaultParams\<lparr>electricIntensity := 0\<rparr>) (Vec2f 0.5 0.5) 0
   \<and> getGlow (defaultParams\<lparr>electricIntensity := 0\<rparr>) (Vec3f 0 0 20) (Vec3f 0 0 (- 1)) 30 = splat 0
   \<and> getGlow defaultParams (Vec3f 0 0 20) (Vec3f 0 1 0) 30 = splat 0"
  using volumetric_gating[of "defaultParams\<lparr>electricIntensity := 0\<rparr>" "Vec2f 0.5 0.5" 0
          "Vec3f 0 0 20" "Vec3f 0 0 (- 1)" 30]
        volumetric_gating[of defaultParams "Vec2f 0.5 0.5" 0 "Vec3f 0 0 20" "Vec3f 0 1 0" 30]
        sdFractal_up_ray
  by simp


















text \<open>
  \<^verbatim>\<open>renderPBR\<close> is called at the points where \<^verbatim>\<open>raymarch\<close> reports a hit (the primary
  hit and the hit of the reflection ray), and a hit is a surface point.
\<close>

lemma raymarch_loop_hit:
  "raymarch_loop u ro rd n (t, m, False) = (t', m', True) \<Longrightarrow>
     v2x (map_scene u (ro + rd * splat t')) < EPSILON"
proof (induction n arbitrary: t)
  case 0
  thus ?case by simp
next
  case (Suc n)
  thus ?case by (auto simp: raymarch_loop_Suc Let_def split: if_splits)
qed

lemma raymarch_hit_surface:
  assumes "vz (raymarch u ro rd) > 0.5"
  shows "v2x (map_scene u (ro + rd * splat (vx (raymarch u ro rd)))) < EPSILON"
proof -
  obtain t m hit where r: "raymarch_loop u ro rd 160 (0, - 1, False) = (t, m, hit)"
    by (metis prod_cases3)
  have hit: "hit" using assms by (auto simp: raymarch_def r split: if_splits)
  hence "v2x (map_scene u (ro + rd * splat t)) < EPSILON"
    using raymarch_loop_hit[of u ro rd 160 0 "- 1" t m] r by simp
  thus ?thesis using hit by (simp add: raymarch_def r)
qed



end
